theory Spec2Isabelle
  imports Main "HOL-Library.AList" "HOL-Library.Char_ord" "HOL-Library.List_Lexorder"
begin

section \<open>Python strings\<close>

text \<open>
  Strings are \<^typ>\<open>string\<close>. The functions below are the operations of Python's
  \<^verbatim>\<open>str\<close> that \<^verbatim>\<open>aigit.py\<close> calls: \<^verbatim>\<open>strip\<close>, \<^verbatim>\<open>find\<close>,
  \<^verbatim>\<open>rfind\<close>, \<^verbatim>\<open>split\<close> (with and without \<^verbatim>\<open>maxsplit=1\<close>) and slicing.
  Indices are \<^typ>\<open>int\<close>, since \<^verbatim>\<open>find\<close> answers \<open>-1\<close> when there is no occurrence.
  A \<^typ>\<open>char\<close> is a code point below 256; the characters that \<^verbatim>\<open>strip\<close> removes
  are those of them for which \<^verbatim>\<open>str.isspace\<close> holds, U+0085 and U+00A0 included.
\<close>

definition is_space :: "char \<Rightarrow> bool" where
  "is_space c = (c \<in> set [CHR 0x09, CHR 0x0A, CHR 0x0B, CHR 0x0C, CHR 0x0D,
                            CHR 0x1C, CHR 0x1D, CHR 0x1E, CHR 0x1F, CHR '' '',
                            CHR 0x85, CHR 0xA0])"

definition str_strip :: "string \<Rightarrow> string" where
  "str_strip s = rev (dropWhile is_space (rev (dropWhile is_space s)))"

fun str_find :: "string \<Rightarrow> string \<Rightarrow> int" where
  "str_find [] sub = (if sub = [] then 0 else - 1)"
| "str_find (c # cs) sub =
     (if take (length sub) (c # cs) = sub then 0
      else (let r = str_find cs sub in if r < 0 then - 1 else r + 1))"

fun str_rfind :: "string \<Rightarrow> string \<Rightarrow> int" where
  "str_rfind [] sub = (if sub = [] then 0 else - 1)"
| "str_rfind (c # cs) sub =
     (let r = str_rfind cs sub in
      if 0 \<le> r then r + 1
      else if take (length sub) (c # cs) = sub then 0 else - 1)"

lemma str_find_nonempty: "0 \<le> str_find s sub \<Longrightarrow> sub \<noteq> [] \<Longrightarrow> s \<noteq> []"
  by (cases s) auto

text \<open>
  \<^verbatim>\<open>s.split(sep)\<close> cuts at the occurrences of \<open>sep\<close> from the left, without overlap.
  Python raises on an empty separator; the source only splits on literals, and the
  model answers \<open>[s]\<close> there.
\<close>

function str_split :: "string \<Rightarrow> string \<Rightarrow> string list" where
  "str_split s sep =
     (let i = str_find s sep in
      if i < 0 \<or> sep = [] then [s]
      else take (nat i) s # str_split (drop (nat i + length sep) s) sep)"
  by pat_completeness auto
termination
proof (relation "measure (\<lambda>(s, sep). length s)")
  show "wf (measure (\<lambda>(s, sep). length s))" by simp
next
  fix s sep :: string and i :: int
  assume i: "i = str_find s sep" and n: "\<not> (i < 0 \<or> sep = [])"
  then have "s \<noteq> []" using str_find_nonempty [of s sep] by auto
  with n show "((drop (nat i + length sep) s, sep), (s, sep)) \<in> measure (\<lambda>(s, sep). length s)"
    by (cases sep) auto
qed

text \<open>\<^verbatim>\<open>s.split(sep, 1)\<close>: at most one cut, so one or two pieces.\<close>

definition str_split1 :: "string \<Rightarrow> string \<Rightarrow> string list" where
  "str_split1 s sep =
     (let i = str_find s sep in
      if i < 0 \<or> sep = [] then [s]
      else [take (nat i) s, drop (nat i + length sep) s])"

text \<open>\<^verbatim>\<open>s[a:b]\<close>, with Python's treatment of negative and too large bounds.\<close>

definition slice_bound :: "string \<Rightarrow> int \<Rightarrow> nat" where
  "slice_bound s i =
     (let n = int (length s) in
      if i < 0 then nat (max 0 (n + i)) else nat (min i n))"

definition str_slice :: "string \<Rightarrow> int \<Rightarrow> int \<Rightarrow> string" where
  "str_slice s a b = take (slice_bound s b - slice_bound s a) (drop (slice_bound s a) s)"

section \<open>Errors\<close>

text \<open>The exceptions the modelled code raises or receives, with their message.\<close>

datatype error =
    ValueError string
  | OSError string
  | GitCommandError string
  | TypeError string
  | AttributeError string
  | JSONDecodeError string
  | IndexError string
  | NotImplementedError string
  | UnicodeEncodeError string
  | UnpicklingError string

section \<open>Response parser: \<^verbatim>\<open>AIGitREPL._parse_ollama_response\<close>\<close>

text \<open>
  A Python \<^verbatim>\<open>dict\<close> keeps insertion order, and assigning to a key that is present
  keeps its place: an association list with \<^const>\<open>AList.update\<close>.
\<close>

type_synonym changes = "(string \<times> string) list"

definition fence :: string where
  "fence = ''```''"

definition newline :: string where
  "newline = [CHR 0x0A]"

definition content_start :: "string \<Rightarrow> int" where
  "content_start section = str_find section fence + 3"

definition content_end :: "string \<Rightarrow> int" where
  "content_end section = str_rfind section fence"

text \<open>
  The body of the \<^verbatim>\<open>for section in sections[1:]\<close> loop. An exception inside the
  \<^verbatim>\<open>try\<close> prints a warning and goes on with the next section, leaving
  \<^verbatim>\<open>changes\<close> as it was.
\<close>

definition parse_section :: "changes \<Rightarrow> string \<Rightarrow> changes" where
  "parse_section changes section =
     (case str_split1 section newline of
        [] \<Rightarrow> changes
      | line0 # _ \<Rightarrow>
          (let filename = str_strip line0 in
           if content_start section > 2 \<and> content_end section > content_start section
           then AList.update filename
                  (str_strip (str_slice section (content_start section) (content_end section)))
                  changes
           else changes))"

definition parse_ollama_response :: "(string \<times> string) list \<Rightarrow> error + changes" where
  "parse_ollama_response response =
     (case (if response = [] then None else map_of response ''response'') of
        None \<Rightarrow> Inl (ValueError ''Invalid response from Ollama'')
      | Some content \<Rightarrow>
          (let sections = str_split content ''FILE: '';
               changes = foldl parse_section [] (tl sections)
           in if changes = [] then Inl (ValueError ''No valid changes found in response'')
              else Inr changes))"

text \<open>The response of the spec's scenario.\<close>

definition scenario_prefix :: string where
  "scenario_prefix = ''Intro text'' @ newline"

definition scenario_section :: string where
  "scenario_section = ''a.py'' @ newline @ ''```'' @ newline @ ''print(1)'' @ newline @ ''```''"

definition scenario_response :: string where
  "scenario_response = scenario_prefix @ ''FILE: '' @ scenario_section"

text \<open>
  Further responses the parser is run on below: a section whose fence is opened and never
  closed, a response with a well-formed section followed by that one, and responses that
  write the marker without its trailing space.
\<close>

definition unterminated_section :: string where
  "unterminated_section = ''b.py'' @ newline @ ''```'' @ newline @ ''print(2)''"

definition two_section_response :: string where
  "two_section_response =
     ''FILE: '' @ (scenario_section @ newline) @ ''FILE: '' @ unterminated_section"

definition nospace_response :: string where
  "nospace_response = ''FILE:a.py'' @ newline @ ''```'' @ newline @ ''print(1)'' @ newline @ ''```''"

definition nospace_tail :: string where
  "nospace_tail = scenario_section @ newline @ ''FILE:c.py'' @ newline @ ''```'' @ newline
     @ ''print(3)'' @ newline @ ''```''"

section \<open>Sessions, repository and environment\<close>

text \<open>
  \<^verbatim>\<open>Session\<close> is the dataclass of the source. An entry of \<^verbatim>\<open>changes_history\<close> is the
  dictionary that \<^verbatim>\<open>update_documentation\<close> appends, with its four keys.
\<close>

record change_record =
  cr_timestamp :: string
  cr_prompt :: string
  cr_changes :: "string list"
  cr_commit :: string

record session =
  branch :: string
  context_files :: "string set"
  changes_history :: "change_record list"
  created_at :: string

text \<open>
  The state that the methods of \<^verbatim>\<open>AIGitTool\<close> read and change: the git repository
  (branch names, the checked-out branch with \<open>None\<close> for a detached HEAD, the commits of
  each branch, whether the working tree is dirty, whether a merge is in progress), the
  files on disk by path, \<^verbatim>\<open>self.session\<close>, and what \<^verbatim>\<open>self.logger\<close> has written.
\<close>

record world =
  heads :: "string list"
  active_branch :: "string option"
  commits :: "string \<Rightarrow> string list"
  is_dirty :: bool
  merging :: bool
  files :: "string \<rightharpoonup> string"
  session :: "session option"
  logged :: "string list"

text \<open>
  What lies outside the program and decides how its calls end: the clock, the
  \<^verbatim>\<open>pickle\<close> library, which paths cannot be opened for writing or for reading, the
  exception with which writing a text to an opened file ends (if any), which git commands
  fail, what \<^verbatim>\<open>Path.rglob\<close> does with a pattern (it raises on a pattern it rejects,
  and yields the paths it finds otherwise) and which paths are regular files. A merge
  that succeeds comes with the commits of the branch merged into, as git leaves them.
\<close>

datatype merge_outcome = Merged "string list" | Conflict string | MergeFailed string

record env =
  now :: string
  now_strftime :: string
  pickle_dump :: "session \<Rightarrow> string"
  pickle_load :: "string \<Rightarrow> error + session"
  write_fails :: "string \<Rightarrow> bool"
  write_error :: "string \<Rightarrow> string \<Rightarrow> error option"
  read_fails :: "string \<Rightarrow> bool"
  create_head_fails :: "string \<Rightarrow> bool"
  checkout_fails :: "string \<Rightarrow> bool"
  merge_result :: merge_outcome
  rglob :: "string \<Rightarrow> error + string list"
  is_file :: "string \<Rightarrow> bool"

text \<open>A call either returns a value or raises; the state it leaves comes with both.\<close>

datatype 'a outcome = Returns 'a | Raises error

fun str_of_error :: "error \<Rightarrow> string" where
  "str_of_error (ValueError m) = m"
| "str_of_error (OSError m) = m"
| "str_of_error (GitCommandError m) = m"
| "str_of_error (TypeError m) = m"
| "str_of_error (AttributeError m) = m"
| "str_of_error (JSONDecodeError m) = m"
| "str_of_error (IndexError m) = m"
| "str_of_error (NotImplementedError m) = m"
| "str_of_error (UnicodeEncodeError m) = m"
| "str_of_error (UnpicklingError m) = m"

definition log_error :: "string \<Rightarrow> world \<Rightarrow> world" where
  "log_error m w = w\<lparr>logged := logged w @ [''ERROR - '' @ m]\<rparr>"

definition log_warning :: "string \<Rightarrow> world \<Rightarrow> world" where
  "log_warning m w = w\<lparr>logged := logged w @ [''WARNING - '' @ m]\<rparr>"

definition session_file :: string where
  "session_file = ''.git/ai-tool-session.pickle''"

definition doc_path :: "string \<Rightarrow> string" where
  "doc_path branch_name = ''ai-tool-docs/'' @ branch_name @ ''.md''"

text \<open>
  The writes of the session file and of the documentation log: \<^verbatim>\<open>open(path, 'wb')\<close> or
  \<^verbatim>\<open>open(path, 'w')\<close>, and \<^verbatim>\<open>open(path, 'a')\<close>, followed by one write. The failure
  they have is that of opening the file, which leaves it as it was.
\<close>

definition write_file :: "env \<Rightarrow> string \<Rightarrow> string \<Rightarrow> world \<Rightarrow> unit outcome \<times> world" where
  "write_file e path text w =
     (if write_fails e path then (Raises (OSError path), w)
      else (Returns (), w\<lparr>files := (files w)(path \<mapsto> text)\<rparr>))"

definition append_file :: "env \<Rightarrow> string \<Rightarrow> string \<Rightarrow> world \<Rightarrow> unit outcome \<times> world" where
  "append_file e path text w =
     (if write_fails e path then (Raises (OSError path), w)
      else (Returns (),
            w\<lparr>files := (files w)(path \<mapsto> (case files w path of None \<Rightarrow> [] | Some old \<Rightarrow> old) @ text)\<rparr>))"

section \<open>The pickle library\<close>












section \<open>Session store: \<^verbatim>\<open>_load_session\<close>, \<^verbatim>\<open>_save_session\<close>\<close>


definition save_session :: "env \<Rightarrow> world \<Rightarrow> unit outcome \<times> world" where
  "save_session e w =
     (case session w of
        None \<Rightarrow> (Returns (), w)
      | Some s \<Rightarrow> write_file e session_file (pickle_dump e s) w)"

section \<open>Lifecycle: \<^verbatim>\<open>create_branch\<close>, \<^verbatim>\<open>update_documentation\<close>\<close>

definition doc_header :: "string \<Rightarrow> string" where
  "doc_header branch_name =
     ''# AI-Assisted Changes: '' @ branch_name @ newline @ newline
     @ ''## Change History'' @ newline @ newline
     @ ''| Timestamp | Prompt | Changes | Commit |'' @ newline
     @ ''|-----------|---------|----------|--------|'' @ newline"

definition init_documentation :: "env \<Rightarrow> string \<Rightarrow> world \<Rightarrow> unit outcome \<times> world" where
  "init_documentation e branch_name w = write_file e (doc_path branch_name) (doc_header branch_name) w"

text \<open>
  \<^verbatim>\<open>repo.create_head\<close> adds a branch at the commit of HEAD; \<^verbatim>\<open>checkout\<close> moves HEAD to
  a branch. Either can fail with a \<^verbatim>\<open>GitCommandError\<close>.
\<close>

definition create_head :: "env \<Rightarrow> string \<Rightarrow> string \<Rightarrow> world \<Rightarrow> unit outcome \<times> world" where
  "create_head e current branch_name w =
     (if create_head_fails e branch_name
      then (Raises (GitCommandError (''git branch '' @ branch_name)), w)
      else (Returns (),
            w\<lparr>heads := heads w @ [branch_name],
              commits := (commits w)(branch_name := commits w current)\<rparr>))"

definition checkout :: "env \<Rightarrow> string \<Rightarrow> world \<Rightarrow> unit outcome \<times> world" where
  "checkout e branch_name w =
     (if checkout_fails e branch_name
      then (Raises (GitCommandError (''git checkout '' @ branch_name)), w)
      else (Returns (), w\<lparr>active_branch := Some branch_name\<rparr>))"

definition new_session :: "env \<Rightarrow> string \<Rightarrow> session" where
  "new_session e branch_name =
     \<lparr>branch = branch_name, context_files = {}, changes_history = [], created_at = now e\<rparr>"

text \<open>
  The body of the \<^verbatim>\<open>try\<close> of \<^verbatim>\<open>create_branch\<close>; \<open>Returns False\<close> is the early return for
  a name that exists.
\<close>

definition create_branch_body :: "env \<Rightarrow> string \<Rightarrow> world \<Rightarrow> bool outcome \<times> world" where
  "create_branch_body e branch_name w =
     (if branch_name \<in> set (heads w)
      then (Returns False, log_error (''Branch '' @ branch_name @ '' already exists'') w)
      else (case active_branch w of
              None \<Rightarrow> (Raises (TypeError ''HEAD is a detached symbolic reference''), w)
            | Some current \<Rightarrow>
                (case create_head e current branch_name w of
                   (Raises err, w1) \<Rightarrow> (Raises err, w1)
                 | (Returns _, w1) \<Rightarrow>
                     (case checkout e branch_name w1 of
                        (Raises err, w2) \<Rightarrow> (Raises err, w2)
                      | (Returns _, w2) \<Rightarrow>
                          (let w3 = w2\<lparr>session := Some (new_session e branch_name)\<rparr> in
                           case save_session e w3 of
                             (Raises err, w4) \<Rightarrow> (Raises err, w4)
                           | (Returns _, w4) \<Rightarrow>
                               (case init_documentation e branch_name w4 of
                                  (Raises err, w5) \<Rightarrow> (Raises err, w5)
                                | (Returns _, w5) \<Rightarrow> (Returns True, w5)))))))"

definition create_branch :: "env \<Rightarrow> string \<Rightarrow> world \<Rightarrow> bool \<times> world" where
  "create_branch e branch_name w =
     (case create_branch_body e branch_name w of
        (Returns b, w') \<Rightarrow> (b, w')
      | (Raises err, w') \<Rightarrow>
          (False, log_error (''Failed to create branch: '' @ str_of_error err) w'))"

fun str_join :: "string \<Rightarrow> string list \<Rightarrow> string" where
  "str_join sep [] = []"
| "str_join sep [x] = x"
| "str_join sep (x # y # ys) = x @ sep @ str_join sep (y # ys)"

definition doc_row :: "string \<Rightarrow> string \<Rightarrow> string \<Rightarrow> string \<Rightarrow> string" where
  "doc_row stamp prompt changes_text commit_hash =
     ''| '' @ stamp @ '' | '' @ prompt @ '' | '' @ changes_text @ '' | '' @ commit_hash
     @ '' |'' @ newline"

text \<open>
  The body of the \<^verbatim>\<open>try\<close> of \<^verbatim>\<open>update_documentation\<close>, for the active session \<open>s\<close>:
  the row is written to the log first, then the history is extended and the session
  saved.
\<close>

definition update_documentation_body ::
    "env \<Rightarrow> session \<Rightarrow> string \<Rightarrow> changes \<Rightarrow> string \<Rightarrow> world \<Rightarrow> unit outcome \<times> world" where
  "update_documentation_body e s prompt changes commit_hash w =
     (let stamp = now_strftime e;
          changes_summary = map (\<lambda>file_path. file_path @ '' (modified)'') (map fst changes);
          changes_text = str_join newline changes_summary
      in case append_file e (doc_path (branch s)) (doc_row stamp prompt changes_text commit_hash) w of
           (Raises err, w1) \<Rightarrow> (Raises err, w1)
         | (Returns _, w1) \<Rightarrow>
             save_session e
               (w1\<lparr>session := Some (s\<lparr>changes_history := changes_history s @
                     [\<lparr>cr_timestamp = stamp, cr_prompt = prompt,
                       cr_changes = changes_summary, cr_commit = commit_hash\<rparr>]\<rparr>)\<rparr>))"

definition update_documentation ::
    "env \<Rightarrow> string \<Rightarrow> changes \<Rightarrow> string \<Rightarrow> world \<Rightarrow> world" where
  "update_documentation e prompt changes commit_hash w =
     (case session w of
        None \<Rightarrow> log_warning ''No active session, skipping documentation update'' w
      | Some s \<Rightarrow>
          (case update_documentation_body e s prompt changes commit_hash w of
             (Returns _, w') \<Rightarrow> w'
           | (Raises err, w') \<Rightarrow>
               log_error (''Failed to update documentation: '' @ str_of_error err) w'))"

section \<open>Change applier: \<^verbatim>\<open>apply_changes\<close>\<close>

text \<open>
  The body of the \<^verbatim>\<open>for\<close> loop. Creating the parent directories and opening the file
  with \<^verbatim>\<open>open(full_path, 'w')\<close> fail or not, by the path, and a failure there leaves
  the file as it was. Opening empties the file, or creates it empty; when
  \<^verbatim>\<open>f.write(content)\<close> then raises, the file stays empty.
\<close>

definition write_edit :: "env \<Rightarrow> string \<Rightarrow> string \<Rightarrow> world \<Rightarrow> unit outcome \<times> world" where
  "write_edit e file_path content w =
     (if write_fails e file_path then (Raises (OSError file_path), w)
      else (case write_error e file_path content of
              Some err \<Rightarrow> (Raises err, w\<lparr>files := (files w)(file_path \<mapsto> [])\<rparr>)
            | None \<Rightarrow> (Returns (), w\<lparr>files := (files w)(file_path \<mapsto> content)\<rparr>)))"

text \<open>The \<^verbatim>\<open>for\<close> loop over \<^verbatim>\<open>changes.items()\<close>.\<close>

fun apply_loop :: "env \<Rightarrow> changes \<Rightarrow> world \<Rightarrow> unit outcome \<times> world" where
  "apply_loop e [] w = (Returns (), w)"
| "apply_loop e ((file_path, content) # rest) w =
     (case write_edit e file_path content w of
        (Raises err, w1) \<Rightarrow> (Raises err, w1)
      | (Returns _, w1) \<Rightarrow> apply_loop e rest w1)"

definition apply_changes :: "env \<Rightarrow> changes \<Rightarrow> world \<Rightarrow> bool \<times> world" where
  "apply_changes e changes w =
     (case apply_loop e changes w of
        (Returns _, w') \<Rightarrow> (True, w')
      | (Raises err, w') \<Rightarrow>
          (False, log_error (''Failed to apply changes: '' @ str_of_error err) w'))"

section \<open>Context builder: \<^verbatim>\<open>get_structural_files\<close>\<close>

text \<open>\<^verbatim>\<open>open(path)\<close> and \<^verbatim>\<open>f.read()\<close>.\<close>

definition read_file :: "env \<Rightarrow> world \<Rightarrow> string \<Rightarrow> error + string" where
  "read_file e w path =
     (if read_fails e path then Inl (OSError path)
      else (case files w path of None \<Rightarrow> Inl (OSError path) | Some text \<Rightarrow> Inr text))"

text \<open>The inner loop, over the paths that \<^verbatim>\<open>rglob\<close> yields for one pattern.\<close>

fun read_paths :: "env \<Rightarrow> world \<Rightarrow> string list \<Rightarrow> changes \<Rightarrow> error + changes" where
  "read_paths e w [] files_content = Inr files_content"
| "read_paths e w (path # paths) files_content =
     (if is_file e path
      then (case read_file e w path of
              Inl err \<Rightarrow> Inl err
            | Inr text \<Rightarrow> read_paths e w paths (AList.update path text files_content))
      else read_paths e w paths files_content)"

text \<open>
  The outer loop, over \<^verbatim>\<open>self.config.structural_patterns\<close>. \<^verbatim>\<open>rglob\<close> raises on a
  pattern it rejects (one that is empty, not relative or malformed) before it yields a
  path.
\<close>

fun read_patterns :: "env \<Rightarrow> world \<Rightarrow> string list \<Rightarrow> changes \<Rightarrow> error + changes" where
  "read_patterns e w [] files_content = Inr files_content"
| "read_patterns e w (pattern # patterns) files_content =
     (case rglob e pattern of
        Inl err \<Rightarrow> Inl err
      | Inr paths \<Rightarrow>
          (case read_paths e w paths files_content of
             Inl err \<Rightarrow> Inl err
           | Inr files_content' \<Rightarrow> read_patterns e w patterns files_content'))"

definition get_structural_files :: "env \<Rightarrow> world \<Rightarrow> string list \<Rightarrow> error + changes" where
  "get_structural_files e w structural_patterns = read_patterns e w structural_patterns []"

section \<open>Config store: \<^verbatim>\<open>GitToolConfig\<close>\<close>

text \<open>
  The values \<^verbatim>\<open>json.load\<close> returns, and how \<^verbatim>\<open>_load_config\<close> can find the file
  \<^verbatim>\<open>.git/ai-tool-config.json\<close>: absent, present and not readable, present with text that
  is not JSON, or present with a JSON value.
\<close>

datatype json =
    JNull
  | JBool bool
  | JNum int
  | JStr string
  | JArr "json list"
  | JObj "(string \<times> json) list"

datatype config_file = Absent | Unreadable | NotJson | Json json

definition load_config :: "config_file \<Rightarrow> error + json" where
  "load_config cf =
     (case cf of
        Absent \<Rightarrow> Inr (JObj [])
      | Unreadable \<Rightarrow> Inl (OSError ''.git/ai-tool-config.json'')
      | NotJson \<Rightarrow> Inl (JSONDecodeError ''Expecting value'')
      | Json j \<Rightarrow> Inr j)"

definition default_patterns :: json where
  "default_patterns =
     JArr [JStr ''package.json'', JStr ''requirements.txt'', JStr ''go.mod'',
           JStr ''Cargo.toml'', JStr ''setup.py'']"

text \<open>
  \<^verbatim>\<open>GitToolConfig.__init__\<close>: the value of \<^verbatim>\<open>self.structural_patterns\<close>, or the
  exception that leaves the constructor. Only a dictionary has \<^verbatim>\<open>get\<close>.
\<close>

definition structural_patterns_of :: "config_file \<Rightarrow> error + json" where
  "structural_patterns_of cf =
     (case load_config cf of
        Inl err \<Rightarrow> Inl err
      | Inr (JObj kvs) \<Rightarrow>
          (case map_of kvs ''structural_patterns'' of
             None \<Rightarrow> Inr default_patterns
           | Some v \<Rightarrow> Inr v)
      | Inr _ \<Rightarrow> Inl (AttributeError ''object has no attribute 'get' ''))"

section \<open>Lifecycle: \<^verbatim>\<open>merge_to_main\<close>\<close>

text \<open>
  \<^verbatim>\<open>git merge\<close> of a branch into the checked-out one. A merge that succeeds gives
  that branch the commits git leaves it with (those of the merged branch when it
  fast-forwards, a merge commit on top otherwise). A merge that stops on conflicts
  leaves the merge in progress and the tree dirty; one that fails otherwise (nothing to
  merge from, unrelated histories, files in the way) changes nothing. Both raise.
  \<^verbatim>\<open>git merge --abort\<close> restores the state before a merge in progress, and fails when
  there is none.
\<close>

definition git_merge :: "env \<Rightarrow> string \<Rightarrow> world \<Rightarrow> unit outcome \<times> world" where
  "git_merge e branch_name w =
     (case merge_result e of
        Merged merged_commits \<Rightarrow>
          (case active_branch w of
             None \<Rightarrow> (Raises (GitCommandError ''git merge''), w)
           | Some onto \<Rightarrow>
               (Returns (), w\<lparr>commits := (commits w)(onto := merged_commits)\<rparr>))
      | Conflict m \<Rightarrow> (Raises (GitCommandError m), w\<lparr>merging := True, is_dirty := True\<rparr>)
      | MergeFailed m \<Rightarrow> (Raises (GitCommandError m), w))"

definition git_merge_abort :: "world \<Rightarrow> unit outcome \<times> world" where
  "git_merge_abort w =
     (if merging w then (Returns (), w\<lparr>merging := False, is_dirty := False\<rparr>)
      else (Raises (GitCommandError ''fatal: There is no merge to abort (MERGE_HEAD missing).''), w))"

text \<open>
  The handler of the outer \<^verbatim>\<open>try\<close>: it logs, runs \<^verbatim>\<open>git merge --abort\<close> outside any
  \<^verbatim>\<open>try\<close>, and returns \<open>False\<close>.
\<close>

definition merge_outer_handler :: "error \<Rightarrow> world \<Rightarrow> bool outcome \<times> world" where
  "merge_outer_handler err w =
     (case git_merge_abort (log_error (''Failed to merge to main: '' @ str_of_error err) w) of
        (Raises err', w') \<Rightarrow> (Raises err', w')
      | (Returns _, w') \<Rightarrow> (Returns False, w'))"

text \<open>
  The handler of the inner \<^verbatim>\<open>try\<close>, for a \<^verbatim>\<open>GitCommandError\<close> with message \<open>m\<close>: it
  logs, aborts the merge and checks \<open>current\<close> out again. What it raises reaches the outer
  handler.
\<close>

definition merge_inner_handler :: "env \<Rightarrow> string \<Rightarrow> string \<Rightarrow> world \<Rightarrow> bool outcome \<times> world" where
  "merge_inner_handler e m current w =
     (let w1 = (if 0 \<le> str_find m ''CONFLICT''
                then log_error ''Merge conflict detected. Please resolve conflicts manually.'' w
                else log_error (''Merge failed: '' @ m) w)
      in case git_merge_abort w1 of
           (Raises err, w2) \<Rightarrow> merge_outer_handler err w2
         | (Returns _, w2) \<Rightarrow>
             (case checkout e current w2 of
                (Raises err, w3) \<Rightarrow> merge_outer_handler err w3
              | (Returns _, w3) \<Rightarrow> (Returns False, w3)))"

definition merge_handler :: "env \<Rightarrow> error \<Rightarrow> string \<Rightarrow> world \<Rightarrow> bool outcome \<times> world" where
  "merge_handler e err current w =
     (case err of
        GitCommandError m \<Rightarrow> merge_inner_handler e m current w
      | _ \<Rightarrow> merge_outer_handler err w)"

definition merge_to_main :: "env \<Rightarrow> world \<Rightarrow> bool outcome \<times> world" where
  "merge_to_main e w =
     (if ''main'' \<notin> set (heads w)
      then (Returns False, log_error ''Main branch does not exist'' w)
      else (case active_branch w of
              None \<Rightarrow> merge_outer_handler (TypeError ''HEAD is a detached symbolic reference'') w
            | Some current \<Rightarrow>
                (if is_dirty w
                 then (Returns False,
                       log_error ''Working directory is not clean. Commit or stash changes first.'' w)
                 else (case checkout e ''main'' w of
                         (Raises err, w1) \<Rightarrow> merge_handler e err current w1
                       | (Returns _, w1) \<Rightarrow>
                           (case session w1 of
                              None \<Rightarrow>
                                merge_handler e
                                  (AttributeError ''NoneType object has no attribute branch'')
                                  current w1
                            | Some s \<Rightarrow>
                                (case git_merge e (branch s) w1 of
                                   (Raises err, w2) \<Rightarrow> merge_handler e err current w2
                                 | (Returns _, w2) \<Rightarrow> (Returns True, w2)))))))"

section \<open>Example environments and repositories\<close>

text \<open>
  An environment in which nothing fails, with a toy pickle that stores the branch name
  (enough to round-trip a fresh session), and a repository with one branch and no session.
\<close>

definition quiet_env :: env where
  "quiet_env =
     \<lparr>now = ''2025-01-01 00:00:00.000000'',
      now_strftime = ''2025-01-01 00:00:00'',
      pickle_dump = (\<lambda>s. branch s),
      pickle_load = (\<lambda>blob. Inr \<lparr>branch = blob, context_files = {}, changes_history = [],
                                  created_at = ''2025-01-01 00:00:00.000000''\<rparr>),
      write_fails = (\<lambda>path. False),
      write_error = (\<lambda>path text. None),
      read_fails = (\<lambda>path. False),
      create_head_fails = (\<lambda>branch_name. False),
      checkout_fails = (\<lambda>branch_name. False),
      merge_result = Merged [''c1'', ''c0''],
      rglob = (\<lambda>pattern. Inr []),
      is_file = (\<lambda>path. True)\<rparr>"

definition fresh_repo :: world where
  "fresh_repo =
     \<lparr>heads = [''main''],
      active_branch = Some ''main'',
      commits = (\<lambda>branch_name. if branch_name = ''main'' then [''c0''] else []),
      is_dirty = False,
      merging = False,
      files = Map.empty,
      session = None,
      logged = []\<rparr>"

text \<open>The repository after \<^verbatim>\<open>new-branch feat-x\<close> and one commit on the branch.\<close>

definition active_repo :: world where
  "active_repo =
     \<lparr>heads = [''main'', ''feat-x''],
      active_branch = Some ''feat-x'',
      commits = (\<lambda>branch_name. if branch_name = ''main'' then [''c0'']
                   else if branch_name = ''feat-x'' then [''c1'', ''c0''] else []),
      is_dirty = False,
      merging = False,
      files = [session_file \<mapsto> ''feat-x'', doc_path ''feat-x'' \<mapsto> doc_header ''feat-x''],
      session = Some (new_session quiet_env ''feat-x''),
      logged = []\<rparr>"

text \<open>Environments with one fault each.\<close>

definition doc_fail_env :: env where
  "doc_fail_env = quiet_env\<lparr>write_fails := (\<lambda>path. path = doc_path ''feat-x'')\<rparr>"

definition b_fail_env :: env where
  "b_fail_env = quiet_env\<lparr>write_fails := (\<lambda>path. path = ''b.py'')\<rparr>"

definition merge_fail_env :: env where
  "merge_fail_env =
     quiet_env\<lparr>merge_result := MergeFailed ''fatal: refusing to merge unrelated histories''\<rparr>"

definition conflict_env :: env where
  "conflict_env =
     quiet_env\<lparr>merge_result := Conflict ''CONFLICT (content): Merge conflict in a.py''\<rparr>"

definition unreadable_env :: env where
  "unreadable_env =
     quiet_env\<lparr>rglob := (\<lambda>pattern. if pattern = ''package.json''
                                    then Inr [''package.json'', ''web/package.json'']
                                    else Inr []),
               read_fails := (\<lambda>path. path = ''package.json'')\<rparr>"

definition manifest_repo :: world where
  "manifest_repo =
     fresh_repo\<lparr>files := [''package.json'' \<mapsto> ''{}'', ''web/package.json'' \<mapsto> ''{ }'']\<rparr>"

definition three_edits :: changes where
  "three_edits = [(''a.py'', ''print(1)''), (''b.py'', ''print(2)''), (''c.py'', ''print(3)'')]"

text \<open>
  A write to \<^verbatim>\<open>b.py\<close> that raises after the file was opened, a repository in which
  \<^verbatim>\<open>b.py\<close> exists, and a pattern that \<^verbatim>\<open>rglob\<close> rejects.
\<close>

definition b_break_env :: env where
  "b_break_env =
     quiet_env\<lparr>write_error := (\<lambda>path text. if path = ''b.py''
                       then Some (UnicodeEncodeError ''surrogates not allowed'') else None)\<rparr>"

definition old_b_repo :: world where
  "old_b_repo = fresh_repo\<lparr>files := [''b.py'' \<mapsto> ''old'']\<rparr>"

definition bad_pattern_env :: env where
  "bad_pattern_env =
     quiet_env\<lparr>rglob := (\<lambda>pattern. if pattern = ''/etc/hostname''
                    then Inl (NotImplementedError ''Non-relative patterns are unsupported'')
                    else if pattern = ''package.json''
                    then Inr [''package.json'', ''web/package.json'']
                    else Inr [])\<rparr>"





section \<open>Notions used in the statements\<close>

text \<open>Whether a parsed JSON value is an object, the only kind with \<^verbatim>\<open>get\<close>.\<close>

definition is_object :: "json \<Rightarrow> bool" where
  "is_object j = (case j of JObj kvs \<Rightarrow> True | _ \<Rightarrow> False)"

text \<open>An edit is written when neither opening its file nor writing its content fails.\<close>

definition edit_ok :: "env \<Rightarrow> string \<times> string \<Rightarrow> bool" where
  "edit_ok e edit \<longleftrightarrow> \<not> write_fails e (fst edit) \<and> write_error e (fst edit) (snd edit) = None"

text \<open>
  A path is readable when opening and reading it succeeds. The steps are what the two loops
  of \<^verbatim>\<open>get_structural_files\<close> meet, in order: for each pattern the error of
  \<^verbatim>\<open>rglob\<close>, or the regular files among the paths it yields. A step fails when it is
  such an error or a file that is not readable, and then raises that error or the I/O
  error of the file. The matched files are the files among the steps; collecting them
  stores each under its path, a later one replacing an earlier one of the same path.
\<close>

definition readable :: "env \<Rightarrow> world \<Rightarrow> string \<Rightarrow> bool" where
  "readable e w path \<longleftrightarrow> \<not> read_fails e path \<and> files w path \<noteq> None"

definition steps :: "env \<Rightarrow> string list \<Rightarrow> (error + string) list" where
  "steps e structural_patterns =
     concat (map (\<lambda>pattern. case rglob e pattern of
                     Inl err \<Rightarrow> [Inl err]
                   | Inr paths \<Rightarrow> map Inr (filter (is_file e) paths)) structural_patterns)"

definition fails :: "env \<Rightarrow> world \<Rightarrow> error + string \<Rightarrow> bool" where
  "fails e w step = (case step of Inl err \<Rightarrow> True | Inr path \<Rightarrow> \<not> readable e w path)"

definition raised :: "error + string \<Rightarrow> error" where
  "raised step = (case step of Inl err \<Rightarrow> err | Inr path \<Rightarrow> OSError path)"

definition matched_files :: "env \<Rightarrow> string list \<Rightarrow> string list" where
  "matched_files e structural_patterns =
     concat (map (\<lambda>pattern. case rglob e pattern of
                     Inl err \<Rightarrow> []
                   | Inr paths \<Rightarrow> filter (is_file e) paths) structural_patterns)"

definition collect :: "world \<Rightarrow> changes \<Rightarrow> string list \<Rightarrow> changes" where
  "collect w files_content paths =
     foldl (\<lambda>m path. AList.update path (case files w path of None \<Rightarrow> [] | Some text \<Rightarrow> text) m)
       files_content paths"

text \<open>
  For a section of a response: whether both fences are located, its first line, and the
  path and content that the parser takes from it.
\<close>

definition fences_located :: "string \<Rightarrow> bool" where
  "fences_located section \<longleftrightarrow>
     content_start section > 2 \<and> content_end section > content_start section"

definition first_line :: "string \<Rightarrow> string" where
  "first_line section =
     (if str_find section newline < 0 then section
      else take (nat (str_find section newline)) section)"

definition section_path :: "string \<Rightarrow> string" where
  "section_path section = str_strip (first_line section)"

definition section_content :: "string \<Rightarrow> string" where
  "section_content section =
     str_strip (str_slice section (content_start section) (content_end section))"

section \<open>Facts about the parser\<close>

lemma str_split1_first_line:
  "str_split1 section newline = first_line section # tl (str_split1 section newline)"
  by (simp add: str_split1_def first_line_def Let_def newline_def)

lemma parse_section_eq:
  "parse_section changes section =
     (if fences_located section
      then AList.update (section_path section) (section_content section) changes
      else changes)"
proof -
  obtain ls where "str_split1 section newline = first_line section # ls"
    using str_split1_first_line by blast
  then show ?thesis
    by (simp add: parse_section_def fences_located_def section_path_def section_content_def)
qed

lemma short_list_cases:
  "length (cs :: 'a list) < 5 \<Longrightarrow>
     cs = [] \<or> (\<exists>a. cs = [a]) \<or> (\<exists>a b. cs = [a, b]) \<or> (\<exists>a b d. cs = [a, b, d])
       \<or> (\<exists>a b d e. cs = [a, b, d, e])"
  by (cases cs; simp; cases "tl cs"; simp; cases "tl (tl cs)"; simp;
      cases "tl (tl (tl cs))"; simp; cases "tl (tl (tl (tl cs)))"; simp) 

lemma marker_no_overlap:
  assumes "take (length ''FILE: '') (c # cs) \<noteq> ''FILE: ''"
  shows "take (length ''FILE: '') (c # cs @ ''FILE: '' @ r) \<noteq> ''FILE: ''"
proof (cases "5 \<le> length cs")
  case True
  then show ?thesis using assms by simp
next
  case False
  then have "length cs < 5" by simp
  from short_list_cases [OF this] show ?thesis by auto
qed

lemma str_find_neg_Cons:
  "str_find (c # cs) sub < 0 \<Longrightarrow> take (length sub) (c # cs) \<noteq> sub \<and> str_find cs sub < 0"
  by (simp add: Let_def split: if_splits)

lemma str_find_marker_append:
  "str_find p ''FILE: '' < 0 \<Longrightarrow> str_find (p @ ''FILE: '' @ r) ''FILE: '' = int (length p)"
proof (induction p)
  case Nil
  then show ?case by simp
next
  case (Cons c cs)
  from str_find_neg_Cons [OF Cons.prems]
  have t: "take (length ''FILE: '') (c # cs) \<noteq> ''FILE: ''" and f: "str_find cs ''FILE: '' < 0"
    by blast+
  have "str_find ((c # cs) @ ''FILE: '' @ r) ''FILE: '' = str_find (cs @ ''FILE: '' @ r) ''FILE: '' + 1"
    using marker_no_overlap [OF t, of r] Cons.IH [OF f] by (simp add: Let_def del: length_Cons list.size)
  with Cons.IH [OF f] show ?case by simp
qed

lemma str_split_no_marker: "str_find s sep < 0 \<Longrightarrow> str_split s sep = [s]"
  by (subst str_split.simps) simp

lemma str_split_marker_append:
  assumes "str_find p ''FILE: '' < 0"
  shows "str_split (p @ ''FILE: '' @ r) ''FILE: '' = p # str_split r ''FILE: ''"
  using str_find_marker_append [OF assms, of r]
  by (subst str_split.simps) (simp add: Let_def)


lemma update_not_Nil: "AList.update k v al \<noteq> []"
  by (cases al) auto

lemma foldl_parse_section_Nil:
  "foldl parse_section acc sections = [] \<longleftrightarrow>
     acc = [] \<and> (\<forall>s \<in> set sections. \<not> fences_located s)"
  by (induction sections arbitrary: acc) (auto simp: parse_section_eq update_not_Nil)

lemma parse_response_content:
  assumes "map_of response ''response'' = Some content"
  shows "parse_ollama_response response =
     (let changes = foldl parse_section [] (tl (str_split content ''FILE: ''))
      in if changes = [] then Inl (ValueError ''No valid changes found in response'')
         else Inr changes)"
proof -
  from assms have "response \<noteq> []" by auto
  with assms show ?thesis by (simp add: parse_ollama_response_def)
qed

lemma parse_single_marker:
  assumes r: "map_of response ''response'' = Some (prefix @ ''FILE: '' @ section)"
    and p: "str_find prefix ''FILE: '' < 0"
    and s: "str_find section ''FILE: '' < 0"
  shows "parse_ollama_response response =
     (if fences_located section then Inr [(section_path section, section_content section)]
      else Inl (ValueError ''No valid changes found in response''))"
proof -
  have "str_split (prefix @ ''FILE: '' @ section) ''FILE: '' = [prefix, section]"
    using str_split_marker_append [OF p, of "section"] str_split_no_marker [OF s] by simp
  then show ?thesis
    by (simp add: parse_response_content [OF r] parse_section_eq)
qed

lemma parse_two_markers:
  assumes r: "map_of response ''response'' = Some (prefix @ ''FILE: '' @ s1 @ ''FILE: '' @ s2)"
    and p: "str_find prefix ''FILE: '' < 0"
    and s1: "str_find s1 ''FILE: '' < 0"
    and s2: "str_find s2 ''FILE: '' < 0"
  shows "parse_ollama_response response =
     (let changes = parse_section (parse_section [] s1) s2
      in if changes = [] then Inl (ValueError ''No valid changes found in response'')
         else Inr changes)"
proof -
  have "str_split (prefix @ ''FILE: '' @ s1 @ ''FILE: '' @ s2) ''FILE: '' = [prefix, s1, s2]"
    using str_split_marker_append [OF p, of "s1 @ ''FILE: '' @ s2"]
      str_split_marker_append [OF s1, of s2] str_split_no_marker [OF s2] by simp
  then show ?thesis
    by (simp add: parse_response_content [OF r])
qed

text \<open>
  C2. A response made of an explanation prefix, one \<^verbatim>\<open>FILE: \<close> marker and one section
  whose fences are located parses to exactly one edit: the path is the trimmed first line
  of the section, the content is the trimmed text between the first and the last fence,
  and the prefix adds nothing. The scenario response of the spec is the witness: it parses
  to the single edit of \<^verbatim>\<open>a.py\<close> with content \<^verbatim>\<open>print(1)\<close>.
\<close>

theorem prefix_and_one_section:
  assumes "map_of response ''response'' = Some (prefix @ ''FILE: '' @ section)"
    and "str_find prefix ''FILE: '' < 0"
    and "str_find section ''FILE: '' < 0"
    and "content_start section > 2"
    and "content_end section > content_start section"
  shows "parse_ollama_response response =
     Inr [(str_strip (first_line section),
           str_strip (str_slice section (str_find section ''```'' + 3) (str_rfind section ''```'')))]"
  using parse_single_marker [OF assms(1-3)] assms(4,5)
  by (simp add: fences_located_def section_path_def section_content_def
      content_start_def content_end_def fence_def)

lemmas parser_defs =
  newline_def fences_located_def content_start_def content_end_def fence_def
  section_path_def section_content_def first_line_def str_strip_def is_space_def
  str_slice_def slice_bound_def Let_def

theorem prefix_and_one_section_witness:
  "str_find scenario_prefix ''FILE: '' < 0
   \<and> str_find scenario_section ''FILE: '' < 0
   \<and> content_start scenario_section > 2
   \<and> content_end scenario_section > content_start scenario_section
   \<and> scenario_response = ''Intro text'' @ [CHR 0x0A] @ ''FILE: a.py'' @ [CHR 0x0A] @ ''```''
         @ [CHR 0x0A] @ ''print(1)'' @ [CHR 0x0A] @ ''```''
   \<and> parse_ollama_response [(''response'', scenario_response)] = Inr [(''a.py'', ''print(1)'')]"
proof -
  have r: "map_of [(''response'', scenario_response)] ''response''
             = Some (scenario_prefix @ ''FILE: '' @ scenario_section)"
    by (simp add: scenario_response_def)
  have p: "str_find scenario_prefix ''FILE: '' < 0"
    by (simp add: scenario_prefix_def parser_defs)
  have s: "str_find scenario_section ''FILE: '' < 0"
    by (simp add: scenario_section_def parser_defs)
  have a: "content_start scenario_section > 2"
    by (simp add: scenario_section_def parser_defs)
  have b: "content_end scenario_section > content_start scenario_section"
    by (simp add: scenario_section_def parser_defs)
  have l: "str_strip (first_line scenario_section) = ''a.py''"
    by (simp add: scenario_section_def parser_defs)
  have c: "str_strip (str_slice scenario_section (str_find scenario_section ''```'' + 3)
             (str_rfind scenario_section ''```'')) = ''print(1)''"
    by (simp add: scenario_section_def parser_defs)
  have t: "scenario_response = ''Intro text'' @ [CHR 0x0A] @ ''FILE: a.py'' @ [CHR 0x0A] @ ''```''
         @ [CHR 0x0A] @ ''print(1)'' @ [CHR 0x0A] @ ''```''"
    by (simp add: scenario_response_def scenario_prefix_def scenario_section_def newline_def)
  from prefix_and_one_section [OF r p s a b] l c
  have "parse_ollama_response [(''response'', scenario_response)] = Inr [(''a.py'', ''print(1)'')]"
    by simp
  with p s a b t show ?thesis by blast
qed

text \<open>
  C3. A section whose fences are not located (start index at most 2 after the offset, or
  end index not greater than the start) leaves the edits as they were, and a section with
  a single fence marker is such a section. A response with one well-formed and one such
  section, in either order, parses to exactly the one edit of the well-formed section.
  The parse fails with the error \<^verbatim>\<open>No valid changes found in response\<close> exactly when no
  section of the response has its fences located.
\<close>

theorem malformed_section_skipped:
  "(content_start section \<le> 2 \<or> content_end section \<le> content_start section
      \<longrightarrow> parse_section changes section = changes)
   \<and> (str_find section ''```'' = str_rfind section ''```''
      \<longrightarrow> content_end section \<le> content_start section)
   \<and> (map_of response ''response'' = Some (prefix @ ''FILE: '' @ good @ ''FILE: '' @ section)
       \<and> str_find prefix ''FILE: '' < 0 \<and> str_find good ''FILE: '' < 0
       \<and> str_find section ''FILE: '' < 0
       \<and> content_start good > 2 \<and> content_end good > content_start good
       \<and> (content_start section \<le> 2 \<or> content_end section \<le> content_start section)
      \<longrightarrow> parse_ollama_response response = Inr [(section_path good, section_content good)])
   \<and> (map_of response' ''response'' = Some (prefix @ ''FILE: '' @ section @ ''FILE: '' @ good)
       \<and> str_find prefix ''FILE: '' < 0 \<and> str_find good ''FILE: '' < 0
       \<and> str_find section ''FILE: '' < 0
       \<and> content_start good > 2 \<and> content_end good > content_start good
       \<and> (content_start section \<le> 2 \<or> content_end section \<le> content_start section)
      \<longrightarrow> parse_ollama_response response' = Inr [(section_path good, section_content good)])
   \<and> (map_of response0 ''response'' = Some content
      \<longrightarrow> (parse_ollama_response response0 = Inl (ValueError ''No valid changes found in response'')
           \<longleftrightarrow> (\<forall>s \<in> set (tl (str_split content ''FILE: '')).
                  content_start s \<le> 2 \<or> content_end s \<le> content_start s)))"
proof (intro conjI impI)
  assume "content_start section \<le> 2 \<or> content_end section \<le> content_start section"
  then show "parse_section changes section = changes"
    by (auto simp: parse_section_eq fences_located_def)
next
  assume "str_find section ''```'' = str_rfind section ''```''"
  then show "content_end section \<le> content_start section"
    by (simp add: content_start_def content_end_def fence_def)
next
  assume a: "map_of response ''response'' = Some (prefix @ ''FILE: '' @ good @ ''FILE: '' @ section)
       \<and> str_find prefix ''FILE: '' < 0 \<and> str_find good ''FILE: '' < 0
       \<and> str_find section ''FILE: '' < 0
       \<and> content_start good > 2 \<and> content_end good > content_start good
       \<and> (content_start section \<le> 2 \<or> content_end section \<le> content_start section)"
  then have g: "fences_located good" and b: "\<not> fences_located section"
    by (auto simp: fences_located_def)
  from a have "parse_ollama_response response =
     (let changes = parse_section (parse_section [] good) section
      in if changes = [] then Inl (ValueError ''No valid changes found in response'')
         else Inr changes)"
    by (intro parse_two_markers [of response prefix good "section"]) blast+
  with g b show "parse_ollama_response response = Inr [(section_path good, section_content good)]"
    by (simp add: parse_section_eq)
next
  assume a: "map_of response' ''response'' = Some (prefix @ ''FILE: '' @ section @ ''FILE: '' @ good)
       \<and> str_find prefix ''FILE: '' < 0 \<and> str_find good ''FILE: '' < 0
       \<and> str_find section ''FILE: '' < 0
       \<and> content_start good > 2 \<and> content_end good > content_start good
       \<and> (content_start section \<le> 2 \<or> content_end section \<le> content_start section)"
  then have g: "fences_located good" and b: "\<not> fences_located section"
    by (auto simp: fences_located_def)
  from a have "parse_ollama_response response' =
     (let changes = parse_section (parse_section [] section) good
      in if changes = [] then Inl (ValueError ''No valid changes found in response'')
         else Inr changes)"
    by (intro parse_two_markers [of response' prefix "section" good]) blast+
  with g b show "parse_ollama_response response' = Inr [(section_path good, section_content good)]"
    by (simp add: parse_section_eq)
next
  assume "map_of response0 ''response'' = Some content"
  from parse_response_content [OF this]
  have "parse_ollama_response response0 = Inl (ValueError ''No valid changes found in response'')
          \<longleftrightarrow> foldl parse_section [] (tl (str_split content ''FILE: '')) = []"
    by (simp add: Let_def)
  also have "\<dots> \<longleftrightarrow> (\<forall>s \<in> set (tl (str_split content ''FILE: '')). \<not> fences_located s)"
    by (simp only: foldl_parse_section_Nil simp_thms)
  also have "\<dots> \<longleftrightarrow> (\<forall>s \<in> set (tl (str_split content ''FILE: '')).
                  content_start s \<le> 2 \<or> content_end s \<le> content_start s)"
    by (simp only: fences_located_def de_Morgan_conj not_less)
  finally show "parse_ollama_response response0 = Inl (ValueError ''No valid changes found in response'')
           \<longleftrightarrow> (\<forall>s \<in> set (tl (str_split content ''FILE: '')).
                  content_start s \<le> 2 \<or> content_end s \<le> content_start s)" .
qed

text \<open>
  C10. Sections start only at the six characters \<^verbatim>\<open>FILE: \<close>, the space included. A
  response in which that string does not occur has no section and parses to no edit at
  all, whatever \<^verbatim>\<open>FILE:\<close> markers without the space and fenced blocks it holds. Where
  the string occurs once, the only edit there can be is the one of the section after it:
  text introduced by \<^verbatim>\<open>FILE:\<close> without the space, before or after, adds no entry.
\<close>

theorem marker_requires_space:
  "(map_of response ''response'' = Some content \<and> str_find content ''FILE: '' < 0
      \<longrightarrow> parse_ollama_response response = Inl (ValueError ''No valid changes found in response''))
   \<and> (map_of response' ''response'' = Some (prefix @ ''FILE: '' @ section)
       \<and> str_find prefix ''FILE: '' < 0 \<and> str_find section ''FILE: '' < 0
      \<longrightarrow> parse_ollama_response response' =
            (if content_start section > 2 \<and> content_end section > content_start section
             then Inr [(section_path section, section_content section)]
             else Inl (ValueError ''No valid changes found in response'')))"
proof (intro conjI impI)
  assume a: "map_of response ''response'' = Some content \<and> str_find content ''FILE: '' < 0"
  then have m: "map_of response ''response'' = Some content"
    and "str_split content ''FILE: '' = [content]"
    by (simp_all add: str_split_no_marker)
  with parse_response_content [OF m]
  show "parse_ollama_response response = Inl (ValueError ''No valid changes found in response'')"
    by simp
next
  assume "map_of response' ''response'' = Some (prefix @ ''FILE: '' @ section)
       \<and> str_find prefix ''FILE: '' < 0 \<and> str_find section ''FILE: '' < 0"
  then have "map_of response' ''response'' = Some (prefix @ ''FILE: '' @ section)"
    and "str_find prefix ''FILE: '' < 0" and "str_find section ''FILE: '' < 0"
    by blast+
  then show "parse_ollama_response response' =
            (if content_start section > 2 \<and> content_end section > content_start section
             then Inr [(section_path section, section_content section)]
             else Inl (ValueError ''No valid changes found in response''))"
    by (simp only: parse_single_marker fences_located_def)
qed


lemma scenario_section_facts:
  "str_find scenario_section ''FILE: '' < 0"
  "content_start scenario_section > 2"
  "content_end scenario_section > content_start scenario_section"
  "section_path scenario_section = ''a.py''"
  "section_content scenario_section = ''print(1)''"
  by (simp_all add: scenario_section_def parser_defs)

lemma scenario_section_newline_facts:
  "str_find (scenario_section @ newline) ''FILE: '' < 0"
  "content_start (scenario_section @ newline) > 2"
  "content_end (scenario_section @ newline) > content_start (scenario_section @ newline)"
  "section_path (scenario_section @ newline) = ''a.py''"
  "section_content (scenario_section @ newline) = ''print(1)''"
  by (simp_all add: scenario_section_def parser_defs)

lemma unterminated_section_facts:
  "str_find unterminated_section ''FILE: '' < 0"
  "str_find unterminated_section ''```'' = str_rfind unterminated_section ''```''"
  "content_end unterminated_section \<le> content_start unterminated_section"
  by (simp_all add: unterminated_section_def parser_defs)

theorem malformed_section_skipped_witness:
  "content_end unterminated_section \<le> content_start unterminated_section
   \<and> str_find unterminated_section ''```'' = str_rfind unterminated_section ''```''
   \<and> parse_section [(''a.py'', ''print(1)'')] unterminated_section = [(''a.py'', ''print(1)'')]
   \<and> parse_ollama_response [(''response'', two_section_response)] = Inr [(''a.py'', ''print(1)'')]
   \<and> parse_ollama_response
         [(''response'', ''FILE: '' @ unterminated_section @ ''FILE: '' @ scenario_section @ newline)]
       = Inr [(''a.py'', ''print(1)'')]
   \<and> parse_ollama_response [(''response'', ''FILE: '' @ unterminated_section)]
       = Inl (ValueError ''No valid changes found in response'')"
proof -
  note th = malformed_section_skipped [of unterminated_section "[(''a.py'', ''print(1)'')]"
      "[(''response'', two_section_response)]" "[]" "scenario_section @ newline"
      "[(''response'', ''FILE: '' @ unterminated_section @ ''FILE: '' @ scenario_section @ newline)]"
      "[(''response'', ''FILE: '' @ unterminated_section)]" "''FILE: '' @ unterminated_section"]
  have sp: "str_split (''FILE: '' @ unterminated_section) ''FILE: '' = [[], unterminated_section]"
    using str_split_marker_append [of "[]" unterminated_section]
      str_split_no_marker [OF unterminated_section_facts(1)] by simp
  have e: "str_find [] ''FILE: '' < 0" by simp
  from th unterminated_section_facts scenario_section_newline_facts e sp
  show ?thesis
    by (simp add: two_section_response_def)
qed


lemma nospace_facts:
  "str_find nospace_response ''FILE:'' = 0"
  "str_find nospace_response ''FILE: '' < 0"
  "str_find (nospace_response @ newline) ''FILE: '' < 0"
  "str_find nospace_tail ''FILE: '' < 0"
  "content_start nospace_tail > 2"
  "content_end nospace_tail > content_start nospace_tail"
  "section_path nospace_tail = ''a.py''"
  "section_content nospace_tail =
     ''print(1)'' @ newline @ ''```'' @ newline @ ''FILE:c.py'' @ newline @ ''```'' @ newline @ ''print(3)''"
  by (simp_all add: nospace_response_def nospace_tail_def scenario_section_def parser_defs)

theorem marker_requires_space_witness:
  "str_find nospace_response ''FILE:'' = 0
   \<and> str_find nospace_response ''FILE: '' < 0
   \<and> parse_ollama_response [(''response'', nospace_response)]
       = Inl (ValueError ''No valid changes found in response'')
   \<and> str_find (nospace_response @ newline) ''FILE: '' < 0
   \<and> str_find nospace_tail ''FILE: '' < 0
   \<and> parse_ollama_response
         [(''response'', (nospace_response @ newline) @ ''FILE: '' @ nospace_tail)]
       = Inr [(''a.py'', ''print(1)'' @ newline @ ''```'' @ newline @ ''FILE:c.py'' @ newline
                @ ''```'' @ newline @ ''print(3)'')]"
proof -
  note th = marker_requires_space [of "[(''response'', nospace_response)]" nospace_response
      "[(''response'', (nospace_response @ newline) @ ''FILE: '' @ nospace_tail)]"
      "nospace_response @ newline" nospace_tail]
  from th nospace_facts show ?thesis
    by simp
qed

section \<open>Facts about the change applier\<close>

lemma apply_loop_Cons:
  "apply_loop e ((p, c) # rest) w =
     (if write_fails e p then (Raises (OSError p), w)
      else (case write_error e p c of
              Some err \<Rightarrow> (Raises err, w\<lparr>files := (files w)(p \<mapsto> [])\<rparr>)
            | None \<Rightarrow> apply_loop e rest (w\<lparr>files := (files w)(p \<mapsto> c)\<rparr>)))"
  by (simp add: write_edit_def split: option.splits)

lemma apply_loop_outcome:
  "fst (apply_loop e cs w) = Returns () \<longleftrightarrow> (\<forall>edit \<in> set cs. edit_ok e edit)"
proof (induction cs arbitrary: w)
  case Nil
  then show ?case by simp
next
  case (Cons pc cs)
  obtain p c where pc: "pc = (p, c)" by (cases pc)
  show ?case unfolding pc apply_loop_Cons
    using Cons.IH by (auto simp: edit_ok_def split: option.splits)
qed

lemma apply_loop_files:
  "files (snd (apply_loop e cs w)) =
     (let written = foldl (\<lambda>f (p, c). f(p \<mapsto> c)) (files w) (takeWhile (edit_ok e) cs)
      in case dropWhile (edit_ok e) cs of
           [] \<Rightarrow> written
         | (p, c) # later \<Rightarrow> if write_fails e p then written else written(p \<mapsto> []))"
proof (induction cs arbitrary: w)
  case Nil
  then show ?case by simp
next
  case (Cons pc cs)
  obtain p c where pc: "pc = (p, c)" by (cases pc)
  show ?case
  proof (cases "edit_ok e (p, c)")
    case True
    then show ?thesis unfolding pc apply_loop_Cons
      using Cons.IH [of "w\<lparr>files := (files w)(p \<mapsto> c)\<rparr>"] by (simp add: edit_ok_def)
  next
    case False
    then show ?thesis unfolding pc apply_loop_Cons
      by (auto simp: edit_ok_def split: option.splits)
  qed
qed

text \<open>
  C9. \<^verbatim>\<open>apply_changes\<close> returns \<open>True\<close> exactly when every edit of the batch is
  written. The files it leaves are those before the call with the edits in front of the
  first failing one written, in order. The failing file is as it was when it could not
  be opened, and empty when the write raised after opening; the edits after it are not
  written, and the earlier ones are not reverted.
\<close>

theorem apply_changes_batch:
  "(fst (apply_changes e cs w) \<longleftrightarrow> (\<forall>edit \<in> set cs. edit_ok e edit))
   \<and> files (snd (apply_changes e cs w)) =
       (let written = foldl (\<lambda>f (p, c). f(p \<mapsto> c)) (files w) (takeWhile (edit_ok e) cs)
        in case dropWhile (edit_ok e) cs of
             [] \<Rightarrow> written
           | (p, c) # later \<Rightarrow> if write_fails e p then written else written(p \<mapsto> []))"
proof -
  obtain r w' where r: "apply_loop e cs w = (r, w')" by (cases "apply_loop e cs w")
  from apply_loop_outcome [of e cs w] apply_loop_files [of e cs w] r
  show ?thesis
    by (cases r) (simp_all add: apply_changes_def log_error_def)
qed

theorem apply_changes_batch_witness:
  "fst (apply_changes b_fail_env three_edits old_b_repo) = False
   \<and> files (snd (apply_changes b_fail_env three_edits old_b_repo))
       = [''b.py'' \<mapsto> ''old'', ''a.py'' \<mapsto> ''print(1)'']
   \<and> fst (apply_changes b_break_env three_edits old_b_repo) = False
   \<and> files (snd (apply_changes b_break_env three_edits old_b_repo))
       = [''a.py'' \<mapsto> ''print(1)'', ''b.py'' \<mapsto> '''']
   \<and> fst (apply_changes quiet_env three_edits old_b_repo) = True
   \<and> files (snd (apply_changes quiet_env three_edits old_b_repo))
       = [''a.py'' \<mapsto> ''print(1)'', ''b.py'' \<mapsto> ''print(2)'', ''c.py'' \<mapsto> ''print(3)'']"
  using apply_changes_batch [of b_fail_env three_edits old_b_repo]
    apply_changes_batch [of b_break_env three_edits old_b_repo]
    apply_changes_batch [of quiet_env three_edits old_b_repo]
  by (simp add: three_edits_def b_fail_env_def b_break_env_def quiet_env_def old_b_repo_def
      fresh_repo_def edit_ok_def)

section \<open>Facts about the session store\<close>









section \<open>Facts about the lifecycle\<close>

text \<open>
  C5, as amended. When the write to the documentation log fails, \<^verbatim>\<open>update_documentation\<close>
  returns normally and the only change of state is the logged error: the change record is
  not appended to the history and the session is not saved again. When the write
  succeeds, the session in memory has the record appended to its history.
\<close>

theorem doc_failure_skips_record:
  "(session w = Some s \<and> write_fails e (doc_path (branch s)) \<longrightarrow>
      update_documentation e prompt cs commit_hash w
        = log_error (''Failed to update documentation: '' @ doc_path (branch s)) w)
   \<and> (session w = Some s \<and> \<not> write_fails e (doc_path (branch s)) \<longrightarrow>
      (\<exists>s'. session (update_documentation e prompt cs commit_hash w) = Some s'
         \<and> changes_history s' = changes_history s @
              [\<lparr>cr_timestamp = now_strftime e, cr_prompt = prompt,
                cr_changes = map (\<lambda>file_path. file_path @ '' (modified)'') (map fst cs),
                cr_commit = commit_hash\<rparr>]))"
  by (auto simp: update_documentation_def update_documentation_body_def append_file_def
      save_session_def write_file_def log_error_def Let_def)


theorem doc_failure_skips_record_witness:
  "session active_repo = Some (new_session quiet_env ''feat-x'')
   \<and> write_fails doc_fail_env (doc_path ''feat-x'')
   \<and> update_documentation doc_fail_env ''add a'' [(''a.py'', ''print(1)'')] ''abc123'' active_repo
       = log_error (''Failed to update documentation: '' @ doc_path ''feat-x'') active_repo
   \<and> \<not> write_fails quiet_env (doc_path ''feat-x'')
   \<and> (\<exists>s'. session (update_documentation quiet_env ''add a'' [(''a.py'', ''print(1)'')] ''abc123''
                active_repo) = Some s'
         \<and> changes_history s' =
              [\<lparr>cr_timestamp = ''2025-01-01 00:00:00'', cr_prompt = ''add a'',
                cr_changes = [''a.py (modified)''], cr_commit = ''abc123''\<rparr>])"
proof -
  have a: "session active_repo = Some (new_session quiet_env ''feat-x'')"
    by (simp add: active_repo_def)
  have b: "branch (new_session quiet_env ''feat-x'') = ''feat-x''"
    and h: "changes_history (new_session quiet_env ''feat-x'') = []"
    by (simp_all add: new_session_def)
  have c: "write_fails doc_fail_env (doc_path ''feat-x'')"
    by (simp add: doc_fail_env_def)
  have d: "\<not> write_fails quiet_env (doc_path ''feat-x'')"
    and n: "now_strftime quiet_env = ''2025-01-01 00:00:00''"
    by (simp_all add: quiet_env_def)
  from doc_failure_skips_record [of active_repo "new_session quiet_env ''feat-x''" doc_fail_env
      "''add a''" "[(''a.py'', ''print(1)'')]" "''abc123''"] a b c
  have 1: "update_documentation doc_fail_env ''add a'' [(''a.py'', ''print(1)'')] ''abc123'' active_repo
       = log_error (''Failed to update documentation: '' @ doc_path ''feat-x'') active_repo"
    by simp
  from doc_failure_skips_record [of active_repo "new_session quiet_env ''feat-x''" quiet_env
      "''add a''" "[(''a.py'', ''print(1)'')]" "''abc123''"] a b d h n
  have 2: "\<exists>s'. session (update_documentation quiet_env ''add a'' [(''a.py'', ''print(1)'')] ''abc123''
                active_repo) = Some s'
         \<and> changes_history s' =
              [\<lparr>cr_timestamp = ''2025-01-01 00:00:00'', cr_prompt = ''add a'',
                cr_changes = [''a.py (modified)''], cr_commit = ''abc123''\<rparr>]"
    by simp
  from a c d 1 2 show ?thesis by blast
qed

text \<open>
  The claim C5 as stated fails: with the log of \<^verbatim>\<open>feat-x\<close> unwritable, the history of the
  session is as empty after the call as before.
\<close>

theorem doc_failure_counterexample:
  "session active_repo = Some (new_session quiet_env ''feat-x'')
   \<and> changes_history (new_session quiet_env ''feat-x'') = []
   \<and> write_fails doc_fail_env (doc_path ''feat-x'')
   \<and> session (update_documentation doc_fail_env ''add a'' [(''a.py'', ''print(1)'')] ''abc123''
        active_repo) = Some (new_session quiet_env ''feat-x'')"
  by (simp add: update_documentation_def update_documentation_body_def append_file_def
      log_error_def Let_def active_repo_def doc_fail_env_def new_session_def)

lemma doc_path_not_session_file:
  "doc_path branch_name \<noteq> session_file" "session_file \<noteq> doc_path branch_name"
  by (simp_all add: doc_path_def session_file_def)

text \<open>
  C1, as amended. \<^verbatim>\<open>create_branch\<close> returns \<open>False\<close> exactly when the name exists, HEAD
  is detached, or creating the branch, checking it out, saving the session or writing the
  documentation header fails. When it fails before the session is set (the first four
  cases), the session in memory and the files, the persisted session among them, are as
  before the call. Otherwise the fresh session is in memory, and it is persisted unless
  the session file could not be written.
\<close>

theorem create_branch_failure:
  "(fst (create_branch e branch_name w) = False \<longleftrightarrow>
      branch_name \<in> set (heads w) \<or> active_branch w = None \<or> create_head_fails e branch_name
      \<or> checkout_fails e branch_name \<or> write_fails e session_file
      \<or> write_fails e (doc_path branch_name))
   \<and> (branch_name \<in> set (heads w) \<or> active_branch w = None \<or> create_head_fails e branch_name
      \<or> checkout_fails e branch_name \<longrightarrow>
        session (snd (create_branch e branch_name w)) = session w
        \<and> files (snd (create_branch e branch_name w)) = files w)
   \<and> (\<not> (branch_name \<in> set (heads w) \<or> active_branch w = None \<or> create_head_fails e branch_name
          \<or> checkout_fails e branch_name) \<longrightarrow>
        session (snd (create_branch e branch_name w)) = Some (new_session e branch_name)
        \<and> files (snd (create_branch e branch_name w)) session_file =
            (if write_fails e session_file then files w session_file
             else Some (pickle_dump e (new_session e branch_name))))"
  by (cases "active_branch w")
    (auto simp: create_branch_def create_branch_body_def create_head_def checkout_def
      save_session_def init_documentation_def write_file_def log_error_def Let_def
      doc_path_not_session_file)


theorem create_branch_failure_witness:
  "''main'' \<in> set (heads active_repo)
   \<and> fst (create_branch quiet_env ''main'' active_repo) = False
   \<and> session (snd (create_branch quiet_env ''main'' active_repo)) = session active_repo
   \<and> files (snd (create_branch quiet_env ''main'' active_repo)) = files active_repo
   \<and> \<not> (''feat-x'' \<in> set (heads fresh_repo) \<or> active_branch fresh_repo = None
          \<or> create_head_fails doc_fail_env ''feat-x'' \<or> checkout_fails doc_fail_env ''feat-x'')
   \<and> write_fails doc_fail_env (doc_path ''feat-x'')
   \<and> fst (create_branch doc_fail_env ''feat-x'' fresh_repo) = False
   \<and> session (snd (create_branch doc_fail_env ''feat-x'' fresh_repo))
       = Some (new_session doc_fail_env ''feat-x'')
   \<and> files (snd (create_branch doc_fail_env ''feat-x'' fresh_repo)) session_file = Some ''feat-x''"
proof -
  have a: "''main'' \<in> set (heads active_repo)"
    by (simp add: active_repo_def)
  have b: "\<not> (''feat-x'' \<in> set (heads fresh_repo) \<or> active_branch fresh_repo = None
          \<or> create_head_fails doc_fail_env ''feat-x'' \<or> checkout_fails doc_fail_env ''feat-x'')"
    by (simp add: fresh_repo_def doc_fail_env_def quiet_env_def)
  have c: "write_fails doc_fail_env (doc_path ''feat-x'')"
    and d: "\<not> write_fails doc_fail_env session_file"
    and p: "pickle_dump doc_fail_env (new_session doc_fail_env ''feat-x'') = ''feat-x''"
    by (simp_all add: doc_fail_env_def quiet_env_def doc_path_not_session_file new_session_def)
  from create_branch_failure [of quiet_env "''main''" active_repo] a
  have 1: "fst (create_branch quiet_env ''main'' active_repo) = False
     \<and> session (snd (create_branch quiet_env ''main'' active_repo)) = session active_repo
     \<and> files (snd (create_branch quiet_env ''main'' active_repo)) = files active_repo"
    by simp
  from create_branch_failure [of doc_fail_env "''feat-x''" fresh_repo] b c d p
  have 2: "fst (create_branch doc_fail_env ''feat-x'' fresh_repo) = False
     \<and> session (snd (create_branch doc_fail_env ''feat-x'' fresh_repo))
         = Some (new_session doc_fail_env ''feat-x'')
     \<and> files (snd (create_branch doc_fail_env ''feat-x'' fresh_repo)) session_file = Some ''feat-x''"
    by simp
  from a b c 1 2 show ?thesis by blast
qed

text \<open>
  The claim C1 as stated fails: from a repository with no session, a call that fails
  while writing the documentation header returns \<open>False\<close> and leaves the new session both
  in memory and in the session file.
\<close>

theorem create_branch_counterexample:
  "session fresh_repo = None
   \<and> files fresh_repo session_file = None
   \<and> fst (create_branch doc_fail_env ''feat-x'' fresh_repo) = False
   \<and> session (snd (create_branch doc_fail_env ''feat-x'' fresh_repo))
       = Some \<lparr>branch = ''feat-x'', context_files = {}, changes_history = [],
               created_at = ''2025-01-01 00:00:00.000000''\<rparr>
   \<and> files (snd (create_branch doc_fail_env ''feat-x'' fresh_repo)) session_file = Some ''feat-x''"
  by (simp add: create_branch_def create_branch_body_def create_head_def checkout_def
      save_session_def init_documentation_def write_file_def log_error_def Let_def
      doc_path_not_session_file fresh_repo_def doc_fail_env_def quiet_env_def new_session_def)

section \<open>Facts about the config store\<close>

text \<open>
  C7, as amended. Without a config file the default patterns are loaded. With a file that
  holds a JSON object, the value under \<^verbatim>\<open>structural_patterns\<close> is loaded, or the defaults
  when the object has no such key. A file that cannot be read or is not JSON makes the
  constructor raise, with no fallback to the defaults; so does JSON that is not an object.
  These are the only ways the load fails.
\<close>

theorem config_load_outcomes:
  "structural_patterns_of Absent = Inr default_patterns
   \<and> (map_of kvs ''structural_patterns'' = None \<longrightarrow>
        structural_patterns_of (Json (JObj kvs)) = Inr default_patterns)
   \<and> (map_of kvs ''structural_patterns'' = Some v \<longrightarrow>
        structural_patterns_of (Json (JObj kvs)) = Inr v)
   \<and> structural_patterns_of Unreadable = Inl (OSError ''.git/ai-tool-config.json'')
   \<and> structural_patterns_of NotJson = Inl (JSONDecodeError ''Expecting value'')
   \<and> ((\<exists>err. structural_patterns_of cf = Inl err) \<longleftrightarrow>
        cf = Unreadable \<or> cf = NotJson \<or> (\<exists>j. cf = Json j \<and> \<not> is_object j))"
proof -
  have "(\<exists>err. structural_patterns_of cf = Inl err) \<longleftrightarrow>
        cf = Unreadable \<or> cf = NotJson \<or> (\<exists>j. cf = Json j \<and> \<not> is_object j)"
  proof (cases cf)
    case (Json j)
    then show ?thesis
      by (cases j) (auto simp: structural_patterns_of_def load_config_def is_object_def
          split: option.splits)
  qed (simp_all add: structural_patterns_of_def load_config_def)
  then show ?thesis
    by (simp add: structural_patterns_of_def load_config_def)
qed

theorem config_load_outcomes_witness:
  "map_of [(''other'', JNull)] ''structural_patterns'' = None
   \<and> structural_patterns_of (Json (JObj [(''other'', JNull)])) = Inr default_patterns
   \<and> map_of [(''structural_patterns'', JArr [JStr ''pom.xml''])] ''structural_patterns''
       = Some (JArr [JStr ''pom.xml''])
   \<and> structural_patterns_of (Json (JObj [(''structural_patterns'', JArr [JStr ''pom.xml''])]))
       = Inr (JArr [JStr ''pom.xml''])
   \<and> (\<exists>err. structural_patterns_of (Json (JArr [])) = Inl err)"
proof -
  have a: "map_of [(''other'', JNull)] ''structural_patterns'' = None" by simp
  have b: "map_of [(''structural_patterns'', JArr [JStr ''pom.xml''])] ''structural_patterns''
       = Some (JArr [JStr ''pom.xml''])" by simp
  have c: "\<not> is_object (JArr [])" by (simp add: is_object_def)
  from config_load_outcomes [of "[(''other'', JNull)]" v "Json (JArr [])" for v] a
  have 1: "structural_patterns_of (Json (JObj [(''other'', JNull)])) = Inr default_patterns"
    by blast
  from config_load_outcomes [of "[(''structural_patterns'', JArr [JStr ''pom.xml''])]"
      "JArr [JStr ''pom.xml'']" "Json (JArr [])"] b
  have 2: "structural_patterns_of (Json (JObj [(''structural_patterns'', JArr [JStr ''pom.xml''])]))
       = Inr (JArr [JStr ''pom.xml''])"
    by blast
  from config_load_outcomes [of "[]" JNull "Json (JArr [])"] c
  have 3: "\<exists>err. structural_patterns_of (Json (JArr [])) = Inl err"
    by blast
  from a b 1 2 3 show ?thesis by blast
qed

text \<open>
  The claim C7 as stated fails: a config file that is not JSON, or not readable, makes the
  load raise instead of falling back to the defaults.
\<close>

theorem config_load_counterexample:
  "structural_patterns_of NotJson = Inl (JSONDecodeError ''Expecting value'')
   \<and> structural_patterns_of NotJson \<noteq> Inr default_patterns
   \<and> structural_patterns_of Unreadable = Inl (OSError ''.git/ai-tool-config.json'')"
  by (simp add: structural_patterns_of_def load_config_def)

section \<open>Facts about the context builder\<close>

lemma read_file_readable:
  "read_file e w path =
     (if readable e w path then Inr (case files w path of None \<Rightarrow> [] | Some text \<Rightarrow> text)
      else Inl (OSError path))"
  by (auto simp: read_file_def readable_def split: option.splits)

lemma collect_simps:
  "collect w acc [] = acc"
  "collect w acc (path # paths) =
     collect w (AList.update path (case files w path of None \<Rightarrow> [] | Some text \<Rightarrow> text) acc) paths"
  by (simp_all add: collect_def)

lemma collect_append: "collect w acc (xs @ ys) = collect w (collect w acc xs) ys"
  by (simp add: collect_def)

lemma read_paths_eq:
  "read_paths e w paths acc =
     (case find (\<lambda>path. \<not> readable e w path) (filter (is_file e) paths) of
        None \<Rightarrow> Inr (collect w acc (filter (is_file e) paths))
      | Some path \<Rightarrow> Inl (OSError path))"
proof (induction paths arbitrary: acc)
  case Nil
  then show ?case by (simp add: collect_simps)
next
  case (Cons path paths)
  show ?case
  proof (cases "is_file e path")
    case False
    then show ?thesis by (simp add: Cons.IH split: option.splits)
  next
    case True
    then show ?thesis
      by (cases "readable e w path")
        (simp_all add: Cons.IH read_file_readable collect_simps split: option.splits)
  qed
qed

lemma find_append:
  "find P (xs @ ys) = (case find P xs of None \<Rightarrow> find P ys | Some x \<Rightarrow> Some x)"
  by (induction xs) simp_all

lemma find_fails_map_Inr:
  "find (fails e w) (map Inr paths) = map_option Inr (find (\<lambda>path. \<not> readable e w path) paths)"
  by (induction paths) (simp_all add: fails_def)

lemma read_patterns_eq:
  "read_patterns e w pats acc =
     (case find (fails e w) (steps e pats) of
        None \<Rightarrow> Inr (collect w acc (matched_files e pats))
      | Some step \<Rightarrow> Inl (raised step))"
proof (induction pats arbitrary: acc)
  case Nil
  then show ?case by (simp add: steps_def matched_files_def collect_simps)
next
  case (Cons pat pats)
  show ?case
  proof (cases "rglob e pat")
    case (Inl err)
    then have "steps e (pat # pats) = Inl err # steps e pats"
      by (simp add: steps_def)
    with Inl show ?thesis by (simp add: fails_def raised_def)
  next
    case (Inr paths)
    then have s: "steps e (pat # pats) = map Inr (filter (is_file e) paths) @ steps e pats"
      and m: "matched_files e (pat # pats) = filter (is_file e) paths @ matched_files e pats"
      by (simp_all add: steps_def matched_files_def)
    show ?thesis
      by (simp add: Inr s m read_paths_eq Cons.IH find_append find_fails_map_Inr collect_append
          raised_def split: option.splits)
  qed
qed

lemma find_fails_None:
  "find (fails e w) (steps e pats) = None \<longleftrightarrow>
     (\<forall>pat \<in> set pats. \<exists>paths. rglob e pat = Inr paths
        \<and> (\<forall>path \<in> set paths. is_file e path \<longrightarrow> readable e w path))"
proof (induction pats)
  case Nil
  then show ?case by (simp add: steps_def)
next
  case (Cons pat pats)
  show ?case
  proof (cases "rglob e pat")
    case (Inl err)
    then have "steps e (pat # pats) = Inl err # steps e pats"
      by (simp add: steps_def)
    with Inl show ?thesis by (simp add: fails_def)
  next
    case (Inr paths)
    then have s: "steps e (pat # pats) = map Inr (filter (is_file e) paths) @ steps e pats"
      by (simp add: steps_def)
    have "find (fails e w) (map Inr (filter (is_file e) paths)) = None
            \<longleftrightarrow> (\<forall>path \<in> set paths. is_file e path \<longrightarrow> readable e w path)"
      by (auto simp: find_fails_map_Inr find_None_iff)
    with Cons.IH Inr show ?thesis
      by (auto simp: s find_append split: option.splits)
  qed
qed

text \<open>
  C8, as amended. \<^verbatim>\<open>get_structural_files\<close> goes through the patterns and the files
  matched in discovery order, and the first step that fails makes the call raise, with
  the error of \<^verbatim>\<open>rglob\<close> for a pattern it rejects and the I/O error of a file that
  cannot be read: nothing is skipped and no mapping is returned. The mapping of every
  matched file to its content is returned exactly when \<^verbatim>\<open>rglob\<close> accepts every
  pattern and every regular file it yields is readable.
\<close>

theorem unreadable_file_raises:
  "get_structural_files e w pats =
     (case find (fails e w) (steps e pats) of
        None \<Rightarrow> Inr (collect w [] (matched_files e pats))
      | Some step \<Rightarrow> Inl (raised step))
   \<and> ((\<exists>files_content. get_structural_files e w pats = Inr files_content)
        \<longleftrightarrow> (\<forall>pat \<in> set pats. \<exists>paths. rglob e pat = Inr paths
               \<and> (\<forall>path \<in> set paths. is_file e path \<longrightarrow> readable e w path)))"
proof -
  have 1: "get_structural_files e w pats =
     (case find (fails e w) (steps e pats) of
        None \<Rightarrow> Inr (collect w [] (matched_files e pats))
      | Some step \<Rightarrow> Inl (raised step))"
    by (simp add: get_structural_files_def read_patterns_eq)
  have "(\<exists>files_content. get_structural_files e w pats = Inr files_content)
          \<longleftrightarrow> find (fails e w) (steps e pats) = None"
    unfolding 1 by (auto split: option.splits)
  also note find_fails_None [of e w pats]
  finally have 2: "(\<exists>files_content. get_structural_files e w pats = Inr files_content)
        \<longleftrightarrow> (\<forall>pat \<in> set pats. \<exists>paths. rglob e pat = Inr paths
               \<and> (\<forall>path \<in> set paths. is_file e path \<longrightarrow> readable e w path))" .
  from 1 2 show ?thesis by (rule conjI)
qed

text \<open>
  The claim C8 as stated fails: with two manifests matched and the first one unreadable,
  the call raises instead of returning the mapping of the second.
\<close>

theorem unreadable_file_counterexample:
  "rglob unreadable_env ''package.json'' = Inr [''package.json'', ''web/package.json'']
   \<and> is_file unreadable_env ''package.json''
   \<and> is_file unreadable_env ''web/package.json''
   \<and> \<not> readable unreadable_env manifest_repo ''package.json''
   \<and> readable unreadable_env manifest_repo ''web/package.json''
   \<and> get_structural_files unreadable_env manifest_repo [''package.json'']
       = Inl (OSError ''package.json'')"
  by (simp add: get_structural_files_def read_file_def readable_def
      unreadable_env_def quiet_env_def manifest_repo_def fresh_repo_def)

theorem unreadable_file_raises_witness:
  "rglob (unreadable_env\<lparr>read_fails := (\<lambda>path. False)\<rparr>) ''package.json''
     = Inr [''package.json'', ''web/package.json'']
   \<and> readable (unreadable_env\<lparr>read_fails := (\<lambda>path. False)\<rparr>) manifest_repo ''package.json''
   \<and> readable (unreadable_env\<lparr>read_fails := (\<lambda>path. False)\<rparr>) manifest_repo
         ''web/package.json''
   \<and> get_structural_files (unreadable_env\<lparr>read_fails := (\<lambda>path. False)\<rparr>) manifest_repo
        [''package.json'']
       = Inr [(''package.json'', ''{}''), (''web/package.json'', ''{ }'')]
   \<and> \<not> readable unreadable_env manifest_repo ''package.json''
   \<and> get_structural_files unreadable_env manifest_repo [''package.json'']
       = Inl (OSError ''package.json'')
   \<and> rglob bad_pattern_env ''/etc/hostname''
       = Inl (NotImplementedError ''Non-relative patterns are unsupported'')
   \<and> get_structural_files bad_pattern_env manifest_repo [''package.json'', ''/etc/hostname'']
       = Inl (NotImplementedError ''Non-relative patterns are unsupported'')
   \<and> \<not> (\<exists>files_content.
          get_structural_files bad_pattern_env manifest_repo [''package.json'', ''/etc/hostname'']
            = Inr files_content)"
proof -
  let ?e = "unreadable_env\<lparr>read_fails := (\<lambda>path. False)\<rparr>"
  have g: "rglob ?e ''package.json'' = Inr [''package.json'', ''web/package.json'']"
    "rglob bad_pattern_env ''/etc/hostname''
       = Inl (NotImplementedError ''Non-relative patterns are unsupported'')"
    by (simp_all add: unreadable_env_def bad_pattern_env_def quiet_env_def)
  have st: "steps ?e [''package.json''] = [Inr ''package.json'', Inr ''web/package.json'']"
    "steps unreadable_env [''package.json''] = [Inr ''package.json'', Inr ''web/package.json'']"
    "steps bad_pattern_env [''package.json'', ''/etc/hostname'']
       = [Inr ''package.json'', Inr ''web/package.json'',
          Inl (NotImplementedError ''Non-relative patterns are unsupported'')]"
    "matched_files ?e [''package.json''] = [''package.json'', ''web/package.json'']"
    by (simp_all add: steps_def matched_files_def unreadable_env_def bad_pattern_env_def
        quiet_env_def)
  have r: "readable ?e manifest_repo ''package.json''"
    "readable ?e manifest_repo ''web/package.json''"
    "\<not> readable unreadable_env manifest_repo ''package.json''"
    "readable bad_pattern_env manifest_repo ''package.json''"
    "readable bad_pattern_env manifest_repo ''web/package.json''"
    by (simp_all add: readable_def unreadable_env_def bad_pattern_env_def quiet_env_def
        manifest_repo_def fresh_repo_def)
  have c: "collect manifest_repo [] [''package.json'', ''web/package.json'']
       = [(''package.json'', ''{}''), (''web/package.json'', ''{ }'')]"
    by (simp add: collect_simps manifest_repo_def fresh_repo_def)
  from unreadable_file_raises [of ?e manifest_repo "[''package.json'']"] st r c
  have 1: "get_structural_files ?e manifest_repo [''package.json'']
       = Inr [(''package.json'', ''{}''), (''web/package.json'', ''{ }'')]"
    by (simp add: fails_def)
  from unreadable_file_raises [of unreadable_env manifest_repo "[''package.json'']"] st r
  have 2: "get_structural_files unreadable_env manifest_repo [''package.json'']
       = Inl (OSError ''package.json'')"
    by (simp add: fails_def raised_def)
  from unreadable_file_raises [of bad_pattern_env manifest_repo
      "[''package.json'', ''/etc/hostname'']"] st r
  have 3: "get_structural_files bad_pattern_env manifest_repo [''package.json'', ''/etc/hostname'']
       = Inl (NotImplementedError ''Non-relative patterns are unsupported'')"
    by (simp add: fails_def raised_def)
  from 3 have 4: "\<not> (\<exists>files_content.
          get_structural_files bad_pattern_env manifest_repo [''package.json'', ''/etc/hostname'']
            = Inr files_content)"
    by simp
  from g r 1 2 3 4 show ?thesis by simp
qed

section \<open>Facts about the merge\<close>

text \<open>
  A merge that stops on conflicts is recovered from: the merge is aborted, the session
  branch is checked out again, and branches, commits, files and session are as before.
\<close>

lemma merge_conflict_recovers:
  assumes "''main'' \<in> set (heads w)"
    and "active_branch w = Some current"
    and "\<not> is_dirty w"
    and "session w = Some s"
    and "merge_result e = Conflict m"
    and "\<not> checkout_fails e ''main''"
    and "\<not> checkout_fails e current"
  shows "fst (merge_to_main e w) = Returns False
     \<and> active_branch (snd (merge_to_main e w)) = Some current
     \<and> commits (snd (merge_to_main e w)) = commits w
     \<and> heads (snd (merge_to_main e w)) = heads w
     \<and> session (snd (merge_to_main e w)) = session w
     \<and> files (snd (merge_to_main e w)) = files w
     \<and> \<not> merging (snd (merge_to_main e w))
     \<and> \<not> is_dirty (snd (merge_to_main e w))"
  using assms
  by (simp add: merge_to_main_def checkout_def git_merge_def merge_handler_def
      merge_inner_handler_def git_merge_abort_def log_error_def Let_def)

text \<open>
  C4. A merge that fails without conflicts leaves no merge in progress, so the
  \<^verbatim>\<open>git merge --abort\<close> of the handler raises, the checkout of the session branch after
  it is not reached, the outer handler runs the same abort and its error leaves
  \<^verbatim>\<open>merge_to_main\<close>: the repository stays on \<^verbatim>\<open>main\<close> and the caller gets an
  exception in place of \<open>False\<close>. The commits of every branch are as before.
\<close>

theorem merge_failure_not_recovered:
  "''main'' \<in> set (heads active_repo)
   \<and> active_branch active_repo = Some ''feat-x''
   \<and> \<not> is_dirty active_repo
   \<and> merge_result merge_fail_env = MergeFailed ''fatal: refusing to merge unrelated histories''
   \<and> fst (merge_to_main merge_fail_env active_repo)
       = Raises (GitCommandError ''fatal: There is no merge to abort (MERGE_HEAD missing).'')
   \<and> active_branch (snd (merge_to_main merge_fail_env active_repo)) = Some ''main''
   \<and> commits (snd (merge_to_main merge_fail_env active_repo)) = commits active_repo"
  by (simp add: merge_to_main_def checkout_def git_merge_def merge_handler_def
      merge_inner_handler_def merge_outer_handler_def git_merge_abort_def log_error_def Let_def
      active_repo_def merge_fail_env_def quiet_env_def new_session_def)

lemma merge_conflict_example:
  "fst (merge_to_main conflict_env active_repo) = Returns False
   \<and> active_branch (snd (merge_to_main conflict_env active_repo)) = Some ''feat-x''"
  using merge_conflict_recovers [of active_repo "''feat-x''" "new_session quiet_env ''feat-x''"
      conflict_env "''CONFLICT (content): Merge conflict in a.py''"]
  by (simp add: active_repo_def conflict_env_def quiet_env_def)

end
